theory Spec2Isabelle
  imports Complex_Main
begin

section \<open>JavaScript numbers and values\<close>

text \<open>
  The overlay plugin (\<^verbatim>\<open>src/js/plugins/overlay.js\<close>) computes with JavaScript numbers.
  A number is modelled as the real it denotes, or one of the three special values that
  division produces: \<open>Fin r\<close>, \<open>PInf\<close>, \<open>NInf\<close>, \<open>NaN\<close>. Arithmetic on finite values is
  exact: the rounding of binary64 and its overflow are not modelled, and neither is the
  sign of zero (a zero divisor counts as \<open>+0\<close>, which is what a DOM box dimension is).
  Division, multiplication, subtraction and comparison otherwise follow ECMAScript,
  in particular for a zero divisor, which HOL's own \<open>/\<close> would turn into \<open>0\<close>.
\<close>

datatype jsnum = Fin real | PInf | NInf | NaN

fun jdiv :: "jsnum \<Rightarrow> jsnum \<Rightarrow> jsnum" where
  "jdiv NaN _ = NaN"
| "jdiv _ NaN = NaN"
| "jdiv (Fin a) (Fin b) =
     (if b \<noteq> 0 then Fin (a / b)
      else if a = 0 then NaN
      else if 0 < a then PInf else NInf)"
| "jdiv (Fin a) PInf = Fin 0"
| "jdiv (Fin a) NInf = Fin 0"
| "jdiv PInf (Fin b) = (if 0 \<le> b then PInf else NInf)"
| "jdiv NInf (Fin b) = (if 0 \<le> b then NInf else PInf)"
| "jdiv PInf PInf = NaN"
| "jdiv PInf NInf = NaN"
| "jdiv NInf PInf = NaN"
| "jdiv NInf NInf = NaN"

fun jmul :: "jsnum \<Rightarrow> jsnum \<Rightarrow> jsnum" where
  "jmul NaN _ = NaN"
| "jmul _ NaN = NaN"
| "jmul (Fin a) (Fin b) = Fin (a * b)"
| "jmul (Fin a) PInf = (if a = 0 then NaN else if 0 < a then PInf else NInf)"
| "jmul (Fin a) NInf = (if a = 0 then NaN else if 0 < a then NInf else PInf)"
| "jmul PInf (Fin b) = (if b = 0 then NaN else if 0 < b then PInf else NInf)"
| "jmul NInf (Fin b) = (if b = 0 then NaN else if 0 < b then NInf else PInf)"
| "jmul PInf PInf = PInf"
| "jmul PInf NInf = NInf"
| "jmul NInf PInf = NInf"
| "jmul NInf NInf = PInf"

fun jsub :: "jsnum \<Rightarrow> jsnum \<Rightarrow> jsnum" where
  "jsub NaN _ = NaN"
| "jsub _ NaN = NaN"
| "jsub (Fin a) (Fin b) = Fin (a - b)"
| "jsub (Fin a) PInf = NInf"
| "jsub (Fin a) NInf = PInf"
| "jsub PInf (Fin b) = PInf"
| "jsub NInf (Fin b) = NInf"
| "jsub PInf PInf = NaN"
| "jsub PInf NInf = PInf"
| "jsub NInf PInf = NInf"
| "jsub NInf NInf = NaN"

text \<open>\<^verbatim>\<open>a > b\<close>: false as soon as one side is \<open>NaN\<close>.\<close>

fun jgt :: "jsnum \<Rightarrow> jsnum \<Rightarrow> bool" where
  "jgt NaN _ = False"
| "jgt _ NaN = False"
| "jgt (Fin a) (Fin b) = (b < a)"
| "jgt (Fin a) PInf = False"
| "jgt (Fin a) NInf = True"
| "jgt PInf (Fin b) = True"
| "jgt NInf (Fin b) = False"
| "jgt PInf PInf = False"
| "jgt PInf NInf = True"
| "jgt NInf PInf = False"
| "jgt NInf NInf = False"

text \<open>Truthiness of a number: \<open>0\<close> and \<open>NaN\<close> are falsy.\<close>

fun truthy :: "jsnum \<Rightarrow> bool" where
  "truthy (Fin a) = (a \<noteq> 0)"
| "truthy PInf = True"
| "truthy NInf = True"
| "truthy NaN = False"

text \<open>
  \<^verbatim>\<open>v || d\<close> where \<open>v\<close> is a numeric property that may be absent (\<open>None\<close> is
  \<^verbatim>\<open>undefined\<close>) and \<open>d\<close> a number.
\<close>

fun js_or :: "jsnum option \<Rightarrow> jsnum \<Rightarrow> jsnum" where
  "js_or None d = d"
| "js_or (Some v) d = (if truthy v then v else d)"

text \<open>\<^verbatim>\<open>Math.round\<close>: the nearest integer, a tie going towards \<open>+\<infinity>\<close>.\<close>

fun Math_round :: "jsnum \<Rightarrow> jsnum" where
  "Math_round (Fin a) = Fin (of_int \<lfloor>a + 1 / 2\<rfloor>)"
| "Math_round v = v"

text \<open>
  The values that cross the plugin's interface untyped: the renderer argument of
  \<^verbatim>\<open>setRenderer\<close>, the frame identifier and the detections of \<^verbatim>\<open>setFrameData\<close>.
  Functions and objects are known by an identity.
\<close>

datatype jsval =
    Undefined
  | Null
  | Boolean bool
  | Number jsnum
  | String string
  | Function nat
  | Object nat

text \<open>\<^verbatim>\<open>is.function\<close> of \<^verbatim>\<open>utils/is\<close>: \<^verbatim>\<open>typeof input === 'function'\<close>.\<close>

fun is_function :: "jsval \<Rightarrow> bool" where
  "is_function (Function _) = True"
| "is_function _ = False"

section \<open>The host: player, window and media\<close>

text \<open>
  What the plugin reads from its surroundings and never writes. \<open>wrapper\<close> is
  \<^verbatim>\<open>player.elements.wrapper\<close>: \<open>None\<close> when it is null (so neither an element nor truthy),
  otherwise the box that \<^verbatim>\<open>getBoundingClientRect()\<close> returns. \<open>videoWidth\<close> and
  \<open>videoHeight\<close> are the media's intrinsic dimensions, \<open>None\<close> when the media element
  has no such property, and \<open>devicePixelRatio\<close> is the window's. \<open>hasRequestVFC\<close> and
  \<open>hasCancelVFC\<close> say whether the media exposes \<^verbatim>\<open>requestVideoFrameCallback\<close> and
  \<^verbatim>\<open>cancelVideoFrameCallback\<close> as functions, \<open>canGetContext\<close> whether
  \<^verbatim>\<open>canvas.getContext('2d')\<close> returns a context rather than null. The last two fields are
  \<^verbatim>\<open>config.overlay.useVideoFrameCallback\<close> and \<^verbatim>\<open>config.overlay.enabled\<close>.
\<close>

datatype domrect = DOMRect (rect_width: jsnum) (rect_height: jsnum)

record host =
  isVideo :: bool
  wrapper :: "domrect option"
  devicePixelRatio :: "jsnum option"
  videoWidth :: "jsnum option"
  videoHeight :: "jsnum option"
  hasRequestVFC :: bool
  hasCancelVFC :: bool
  canGetContext :: bool
  useVideoFrameCallback :: bool
  overlayEnabled :: bool

section \<open>Geometry: \<^verbatim>\<open>getVideoRect\<close>\<close>

datatype rect = Rect (rect_x: jsnum) (rect_y: jsnum) (rect_w: jsnum) (rect_h: jsnum)

definition getVideoRect :: "host \<Rightarrow> rect" where
  "getVideoRect p =
     (case wrapper p of
        None \<Rightarrow> Rect (Fin 0) (Fin 0) (Fin 0) (Fin 0)
      | Some wrapperRect \<Rightarrow>
          let cw = rect_width wrapperRect;
              ch = rect_height wrapperRect;
              vw = js_or (videoWidth p) (Fin 1920);
              vh = js_or (videoHeight p) (Fin 1080)
          in if \<not> truthy vw \<or> \<not> truthy vh then Rect (Fin 0) (Fin 0) cw ch
             else
               let videoRatio = jdiv vw vh;
                   containerRatio = jdiv cw ch
               in if jgt containerRatio videoRatio then
                    let drawH = ch;
                        drawW = jmul ch videoRatio;
                        offsetX = jdiv (jsub cw drawW) (Fin 2);
                        offsetY = Fin 0
                    in Rect offsetX offsetY drawW drawH
                  else
                    let drawW = cw;
                        drawH = jdiv cw videoRatio;
                        offsetX = Fin 0;
                        offsetY = jdiv (jsub ch drawH) (Fin 2)
                    in Rect offsetX offsetY drawW drawH)"

section \<open>The overlay and the browser it runs in\<close>

text \<open>
  The canvas element with its pixel resolution, and its 2D context with the current
  transform \<open>(a, b, c, d, e, f)\<close>. A canvas is created 300 by 150 with the identity
  transform. \<open>width\<close> and \<open>height\<close> hold the number last assigned: the conversion of an
  assigned number to the attribute's unsigned long, the identity on the integers from
  0 to 2147483647, is left out.
\<close>

record canvas_el =
  width :: jsnum
  height :: jsnum

type_synonym matrix = "jsnum \<times> jsnum \<times> jsnum \<times> jsnum \<times> jsnum \<times> jsnum"

record context2d =
  transform :: matrix

text \<open>
  What the plugin does to the outside, in order: warnings and log lines of
  \<^verbatim>\<open>player.debug\<close>, DOM insertions and removals of the canvas, \<^verbatim>\<open>clearRect\<close>, the
  \<^verbatim>\<open>overlayframe\<close> event with its metadata, calls of the cancellation functions, and
  calls of the registered renderer with the context, the frame data, the video
  rectangle and the frame identifier it is given. The renderer is the host's code:
  it is taken to return normally and not to call back into the overlay.
\<close>

datatype effect =
    Warn string
  | Log string
  | AppendChild
  | RemoveChild
  | ClearRect jsnum jsnum jsnum jsnum
  | OverlayFrame jsval
  | CancelAnimationFrame nat
  | CancelVideoFrameCallback nat
  | RendererCall jsval context2d jsval rect jsval

text \<open>
  The fields of the \<^verbatim>\<open>Overlay\<close> instance under their own names (\<open>rafId\<close>, \<open>rvfcId\<close> and
  \<open>running\<close> for \<^verbatim>\<open>_rafId\<close>, \<^verbatim>\<open>_rvfcId\<close> and \<^verbatim>\<open>_running\<close>; \<open>None\<close> for a null handle or
  element), followed by the browser state it changes: the registrations pending with
  \<^verbatim>\<open>requestAnimationFrame\<close> and \<^verbatim>\<open>requestVideoFrameCallback\<close> (by handle), the next handle
  of each, whether the window and fullscreen listeners are bound, whether
  \<^verbatim>\<open>player.elements.overlay\<close> is set, and the effects so far.
\<close>

record state =
  canvas :: "canvas_el option"
  ctx :: "context2d option"
  enabled :: bool
  ready :: bool
  frameData :: jsval
  activeFrameId :: jsval
  renderer :: jsval
  rafId :: "nat option"
  rvfcId :: "nat option"
  running :: bool
  rafPending :: "nat list"
  rvfcPending :: "nat list"
  nextRaf :: nat
  nextRvfc :: nat
  resizeBound :: bool
  fullscreenBound :: bool
  elementsOverlay :: bool
  trace :: "effect list"

datatype error = TypeError

definition emit :: "effect \<Rightarrow> state \<Rightarrow> state" where
  "emit e s = s\<lparr>trace := trace s @ [e]\<rparr>"

subsection \<open>The browser's scheduling functions\<close>

text \<open>
  \<^verbatim>\<open>requestAnimationFrame\<close> and \<^verbatim>\<open>requestVideoFrameCallback\<close> register a callback and
  return a fresh handle; the cancellation functions drop the registration with that
  handle, if there is one. Only the overlay's own two callbacks are ever registered
  here, so a registration is its handle.
\<close>

definition requestAnimationFrame :: "state \<Rightarrow> nat \<times> state" where
  "requestAnimationFrame s =
     (nextRaf s, s\<lparr>rafPending := rafPending s @ [nextRaf s], nextRaf := Suc (nextRaf s)\<rparr>)"

definition cancelAnimationFrame :: "nat \<Rightarrow> state \<Rightarrow> state" where
  "cancelAnimationFrame i s =
     emit (CancelAnimationFrame i) (s\<lparr>rafPending := removeAll i (rafPending s)\<rparr>)"

definition requestVideoFrameCallback :: "state \<Rightarrow> nat \<times> state" where
  "requestVideoFrameCallback s =
     (nextRvfc s, s\<lparr>rvfcPending := rvfcPending s @ [nextRvfc s], nextRvfc := Suc (nextRvfc s)\<rparr>)"

definition cancelVideoFrameCallback :: "nat \<Rightarrow> state \<Rightarrow> state" where
  "cancelVideoFrameCallback i s =
     emit (CancelVideoFrameCallback i) (s\<lparr>rvfcPending := removeAll i (rvfcPending s)\<rparr>)"

subsection \<open>\<^verbatim>\<open>render\<close>, \<^verbatim>\<open>resize\<close>, \<^verbatim>\<open>setFrameData\<close>, \<^verbatim>\<open>setRenderer\<close>, \<^verbatim>\<open>clear\<close>\<close>

definition render :: "host \<Rightarrow> state \<Rightarrow> state" where
  "render p s =
     (case ctx s of
        None \<Rightarrow> s
      | Some c \<Rightarrow>
          (case canvas s of
             None \<Rightarrow> s
           | Some cv \<Rightarrow>
               (case wrapper p of
                  None \<Rightarrow> s
                | Some wrapperRect \<Rightarrow>
                    let cssWidth = rect_width wrapperRect;
                        cssHeight = rect_height wrapperRect;
                        s1 = emit (ClearRect (Fin 0) (Fin 0) cssWidth cssHeight) s;
                        s2 = (if is_function (renderer s1) then
                                let videoRect = getVideoRect p
                                in emit (RendererCall (renderer s1) c (frameData s1) videoRect
                                           (activeFrameId s1)) s1
                              else s1)
                    in s2\<lparr>frameData := Null, activeFrameId := Null\<rparr>)))"

text \<open>
  \<^verbatim>\<open>resize\<close> dereferences \<^verbatim>\<open>this.ctx\<close> without a check: with a canvas and a wrapper but
  no context it throws a TypeError. The result is then the error alone; the state at the
  throw is not kept.
\<close>

definition resize :: "host \<Rightarrow> state \<Rightarrow> error + state" where
  "resize p s =
     (case canvas s of
        None \<Rightarrow> Inr s
      | Some cv \<Rightarrow>
          (case wrapper p of
             None \<Rightarrow> Inr s
           | Some rect \<Rightarrow>
               let dpr = js_or (devicePixelRatio p) (Fin 1);
                   cv1 = cv\<lparr>width := Math_round (jmul (rect_width rect) dpr)\<rparr>;
                   cv2 = cv1\<lparr>height := Math_round (jmul (rect_height rect) dpr)\<rparr>;
                   s1 = s\<lparr>canvas := Some cv2\<rparr>
               in (case ctx s1 of
                     None \<Rightarrow> Inl TypeError
                   | Some c \<Rightarrow>
                       Inr (render p
                         (s1\<lparr>ctx := Some (c\<lparr>transform := (dpr, Fin 0, Fin 0, dpr, Fin 0, Fin 0)\<rparr>)\<rparr>)))))"

definition setFrameData :: "jsval \<Rightarrow> jsval \<Rightarrow> state \<Rightarrow> state" where
  "setFrameData frameId detections s = s\<lparr>activeFrameId := frameId, frameData := detections\<rparr>"

definition setRenderer :: "jsval \<Rightarrow> state \<Rightarrow> state" where
  "setRenderer callback s =
     (if \<not> is_function callback \<and> callback \<noteq> Null then
        emit (Warn ''Overlay renderer must be a function or null'') s
      else s\<lparr>renderer := callback\<rparr>)"

definition clear :: "host \<Rightarrow> state \<Rightarrow> state" where
  "clear p s =
     (let s1 = s\<lparr>frameData := Null, activeFrameId := Null\<rparr>
      in if ctx s1 \<noteq> None \<and> canvas s1 \<noteq> None then
           (case wrapper p of
              None \<Rightarrow> s1
            | Some rect \<Rightarrow> emit (ClearRect (Fin 0) (Fin 0) (rect_width rect) (rect_height rect)) s1)
         else s1)"

subsection \<open>The render loop\<close>

text \<open>
  \<open>rafLoop_loop\<close> is the closure \<^verbatim>\<open>loop\<close> that \<^verbatim>\<open>_rafLoop\<close> registers, \<open>rvfcLoop_callback\<close>
  the closure \<^verbatim>\<open>callback\<close> of \<^verbatim>\<open>_rvfcLoop\<close>, called by the browser with the frame's
  metadata.
\<close>

definition rafLoop_loop :: "host \<Rightarrow> state \<Rightarrow> state" where
  "rafLoop_loop p s =
     (if \<not> running s then s
      else let s1 = render p s;
               (i, s2) = requestAnimationFrame s1
           in s2\<lparr>rafId := Some i\<rparr>)"

definition rafLoop :: "state \<Rightarrow> state" where
  "rafLoop s =
     (if \<not> running s then s
      else let (i, s1) = requestAnimationFrame s in s1\<lparr>rafId := Some i\<rparr>)"

definition rvfcLoop_callback :: "host \<Rightarrow> jsval \<Rightarrow> state \<Rightarrow> state" where
  "rvfcLoop_callback p metadata s =
     (if \<not> running s then s
      else let s1 = emit (OverlayFrame metadata) s;
               s2 = render p s1;
               (i, s3) = requestVideoFrameCallback s2
           in s3\<lparr>rvfcId := Some i\<rparr>)"

definition rvfcLoop :: "state \<Rightarrow> state" where
  "rvfcLoop s =
     (if \<not> running s then s
      else let (i, s1) = requestVideoFrameCallback s in s1\<lparr>rvfcId := Some i\<rparr>)"

definition startLoop :: "host \<Rightarrow> state \<Rightarrow> state" where
  "startLoop p s =
     (if running s then s
      else let s1 = s\<lparr>running := True\<rparr>
           in if useVideoFrameCallback p \<and> hasRequestVFC p then rvfcLoop s1 else rafLoop s1)"

definition stopLoop :: "host \<Rightarrow> state \<Rightarrow> state" where
  "stopLoop p s =
     (let s1 = s\<lparr>running := False\<rparr>;
          s2 = (case rafId s1 of
                  None \<Rightarrow> s1
                | Some i \<Rightarrow> (cancelAnimationFrame i s1)\<lparr>rafId := None\<rparr>)
      in (case rvfcId s2 of
            None \<Rightarrow> s2
          | Some i \<Rightarrow>
              if hasCancelVFC p then (cancelVideoFrameCallback i s2)\<lparr>rvfcId := None\<rparr>
              else s2))"

text \<open>
  The browser runs a pending registration: an animation frame the one with handle \<open>i\<close>,
  a decoded video frame the one with handle \<open>i\<close>, with the frame's metadata. A
  registration is spent when it runs; a handle that is not pending runs nothing.
\<close>

datatype event = AnimationFrame nat | VideoFrame nat jsval

fun fire :: "host \<Rightarrow> event \<Rightarrow> state \<Rightarrow> state" where
  "fire p (AnimationFrame i) s =
     (if i \<in> set (rafPending s)
      then rafLoop_loop p (s\<lparr>rafPending := removeAll i (rafPending s)\<rparr>)
      else s)"
| "fire p (VideoFrame i metadata) s =
     (if i \<in> set (rvfcPending s)
      then rvfcLoop_callback p metadata (s\<lparr>rvfcPending := removeAll i (rvfcPending s)\<rparr>)
      else s)"


subsection \<open>Construction, \<^verbatim>\<open>setup\<close> and \<^verbatim>\<open>destroy\<close>\<close>

text \<open>
  \<open>setup_overlay\<close> is the method \<^verbatim>\<open>setup\<close>, \<open>Overlay\<close> the constructor. The listeners that
  \<^verbatim>\<open>_bindListeners\<close> adds are two flags; \<^verbatim>\<open>_unbindListeners\<close> removes the window's only.
  The canvas that \<^verbatim>\<open>setup\<close> appends to the wrapper stays its child until \<^verbatim>\<open>destroy\<close>
  removes it.
\<close>

definition bindListeners :: "state \<Rightarrow> state" where
  "bindListeners s = s\<lparr>resizeBound := True, fullscreenBound := True\<rparr>"

definition unbindListeners :: "state \<Rightarrow> state" where
  "unbindListeners s = s\<lparr>resizeBound := False\<rparr>"

definition setup_overlay :: "host \<Rightarrow> state \<Rightarrow> error + state" where
  "setup_overlay p s =
     (if \<not> isVideo p then Inr (emit (Warn ''Overlay is only supported for video'') s)
      else if ready s then Inr s
      else
        (case wrapper p of
           None \<Rightarrow> Inr (emit (Warn ''Overlay setup failed: no video wrapper found'') s)
         | Some _ \<Rightarrow>
             let s1 = s\<lparr>canvas := Some \<lparr>width = Fin 300, height = Fin 150\<rparr>\<rparr>;
                 s2 = emit AppendChild s1;
                 s3 = s2\<lparr>ctx := (if canGetContext p
                                  then Some \<lparr>transform = (Fin 1, Fin 0, Fin 0, Fin 1, Fin 0, Fin 0)\<rparr>
                                  else None)\<rparr>;
                 s4 = s3\<lparr>elementsOverlay := True\<rparr>
             in (case resize p s4 of
                   Inl e \<Rightarrow> Inl e
                 | Inr s5 \<Rightarrow>
                     let s6 = bindListeners s5;
                         s7 = s6\<lparr>enabled := True, ready := True\<rparr>;
                         s8 = emit (Log ''Overlay initialized'') s7
                     in Inr (startLoop p s8))))"

definition destroy :: "host \<Rightarrow> state \<Rightarrow> state" where
  "destroy p s =
     (let s1 = stopLoop p s;
          s2 = unbindListeners s1;
          s3 = (if canvas s2 \<noteq> None then emit RemoveChild s2 else s2);
          s4 = s3\<lparr>canvas := None, ctx := None, frameData := Null, activeFrameId := Null,
                  renderer := Null, enabled := False, ready := False\<rparr>
      in emit (Log ''Overlay destroyed'') s4)"

text \<open>The fields as the constructor sets them, in a browser with nothing pending.\<close>

definition initial :: state where
  "initial =
     \<lparr>canvas = None, ctx = None, enabled = False, ready = False,
      frameData = Null, activeFrameId = Null, renderer = Null,
      rafId = None, rvfcId = None, running = False,
      rafPending = [], rvfcPending = [], nextRaf = 1, nextRvfc = 1,
      resizeBound = False, fullscreenBound = False, elementsOverlay = False,
      trace = []\<rparr>"

definition Overlay :: "host \<Rightarrow> error + state" where
  "Overlay p = (if overlayEnabled p then setup_overlay p initial else Inr initial)"

section \<open>Observations\<close>


definition surfaceState :: "state \<Rightarrow> (jsnum \<times> jsnum \<times> matrix) option" where
  "surfaceState s =
     (case canvas s of
        None \<Rightarrow> None
      | Some cv \<Rightarrow>
          (case ctx s of
             None \<Rightarrow> None
           | Some c \<Rightarrow> Some (width cv, height cv, transform c)))"


section \<open>Example hosts and states\<close>

text \<open>
  A video player with an 800 by 800 wrapper on a display of density 2, playing
  1920 by 1080 content, whose media has no \<^verbatim>\<open>requestVideoFrameCallback\<close>; and the overlay
  that the constructor builds for it.
\<close>

definition demo_host :: host where
  "demo_host =
     \<lparr>isVideo = True, wrapper = Some (DOMRect (Fin 800) (Fin 800)),
      devicePixelRatio = Some (Fin 2),
      videoWidth = Some (Fin 1920), videoHeight = Some (Fin 1080),
      hasRequestVFC = False, hasCancelVFC = False, canGetContext = True,
      useVideoFrameCallback = True, overlayEnabled = True\<rparr>"

definition demo_state :: state where
  "demo_state =
     \<lparr>canvas = Some \<lparr>width = Fin 1600, height = Fin 1600\<rparr>,
      ctx = Some \<lparr>transform = (Fin 2, Fin 0, Fin 0, Fin 2, Fin 0, Fin 0)\<rparr>,
      enabled = True, ready = True, frameData = Null, activeFrameId = Null, renderer = Null,
      rafId = Some 1, rvfcId = None, running = True,
      rafPending = [1], rvfcPending = [], nextRaf = 2, nextRvfc = 1,
      resizeBound = True, fullscreenBound = True, elementsOverlay = True,
      trace = [AppendChild, ClearRect (Fin 0) (Fin 0) (Fin 800) (Fin 800),
               Log ''Overlay initialized'']\<rparr>"

text \<open>
  A media dimension is unknown when \<^verbatim>\<open>||\<close> replaces it: absent, zero or \<open>NaN\<close>.
  \<open>unknown_host\<close> is the demo player before the media reports its dimensions.
\<close>

definition unknown :: "jsnum option \<Rightarrow> bool" where
  "unknown v = (case v of None \<Rightarrow> True | Some n \<Rightarrow> \<not> truthy n)"

definition unknown_host :: host where
  "unknown_host = demo_host\<lparr>videoWidth := Some (Fin 0), videoHeight := Some (Fin 0)\<rparr>"




section \<open>What a host can do with an overlay\<close>


text \<open>
  The calls a host makes on the instance, the public methods and the browser running a
  registered callback, and a sequence of them from left to right, ending at the first
  exception. \<^verbatim>\<open>_startLoop\<close> and \<^verbatim>\<open>_stopLoop\<close> are private: they run inside \<^verbatim>\<open>setup\<close> and
  \<^verbatim>\<open>destroy\<close>. The window's resize event and the two fullscreen events call \<^verbatim>\<open>resize\<close>,
  so they are \<open>Resize\<close>. The host is the same throughout a sequence: the player keeps
  its wrapper, its media and its configuration.
\<close>

datatype call =
    Setup
  | Resize
  | SetFrameData jsval jsval
  | SetRenderer jsval
  | Render
  | Clear
  | Destroy
  | Browser event

fun perform :: "host \<Rightarrow> call \<Rightarrow> state \<Rightarrow> error + state" where
  "perform p Setup s = setup_overlay p s"
| "perform p Resize s = resize p s"
| "perform p (SetFrameData frameId detections) s = Inr (setFrameData frameId detections s)"
| "perform p (SetRenderer callback) s = Inr (setRenderer callback s)"
| "perform p Render s = Inr (render p s)"
| "perform p Clear s = Inr (clear p s)"
| "perform p Destroy s = Inr (destroy p s)"
| "perform p (Browser e) s = Inr (fire p e s)"

fun performs :: "host \<Rightarrow> call list \<Rightarrow> state \<Rightarrow> error + state" where
  "performs p [] s = Inr s"
| "performs p (c # cs) s =
     (case perform p c s of Inl e \<Rightarrow> Inl e | Inr s' \<Rightarrow> performs p cs s')"



section \<open>Basic facts\<close>

lemma render_attached:
  assumes "ctx s = Some c" and "canvas s = Some cv" and "wrapper p = Some (DOMRect lw lh)"
  shows "render p s =
     s\<lparr>trace := trace s @ ClearRect (Fin 0) (Fin 0) lw lh #
            (if is_function (renderer s)
             then [RendererCall (renderer s) c (frameData s) (getVideoRect p) (activeFrameId s)]
             else []),
       frameData := Null, activeFrameId := Null\<rparr>"
  using assms by (simp add: render_def emit_def Let_def)

lemma Overlay_demo: "Overlay demo_host = Inr demo_state"
  by (simp add: Overlay_def demo_host_def demo_state_def initial_def setup_overlay_def
      resize_def render_def emit_def startLoop_def rafLoop_def rvfcLoop_def
      requestAnimationFrame_def bindListeners_def Let_def)

lemma demo_wrapper: "wrapper demo_host = Some (DOMRect (Fin 800) (Fin 800))"
  by (simp add: demo_host_def)

section \<open>The surface: \<^verbatim>\<open>resize\<close>\<close>



section \<open>The renderer: \<^verbatim>\<open>setRenderer\<close>\<close>

text \<open>
  Claim C9. \<^verbatim>\<open>setRenderer\<close> with a value that is neither a function nor null reports
  the warning and changes nothing else, so the registered renderer stays; with a
  function or null it replaces the renderer and does nothing else. It returns a state
  in every case: there is no path on which it throws.
\<close>

theorem setRenderer_validates:
  "(\<not> is_function v \<and> v \<noteq> Null \<longrightarrow>
      setRenderer v s = s\<lparr>trace := trace s @ [Warn ''Overlay renderer must be a function or null'']\<rparr>
      \<and> renderer (setRenderer v s) = renderer s)
   \<and> (is_function v \<or> v = Null \<longrightarrow> setRenderer v s = s\<lparr>renderer := v\<rparr>)"
  by (auto simp: setRenderer_def emit_def)

theorem setRenderer_validates_witness:
  "\<not> is_function (String ''draw'') \<and> String ''draw'' \<noteq> Null
   \<and> renderer (setRenderer (String ''draw'') (demo_state\<lparr>renderer := Function 7\<rparr>)) = Function 7
   \<and> trace (setRenderer (String ''draw'') (demo_state\<lparr>renderer := Function 7\<rparr>))
       = trace demo_state @ [Warn ''Overlay renderer must be a function or null'']
   \<and> is_function (Function 7)
   \<and> setRenderer (Function 7) demo_state = demo_state\<lparr>renderer := Function 7\<rparr>
   \<and> setRenderer Null (demo_state\<lparr>renderer := Function 7\<rparr>) = demo_state\<lparr>renderer := Null\<rparr>"
  using setRenderer_validates [of "String ''draw''" "demo_state\<lparr>renderer := Function 7\<rparr>"]
    setRenderer_validates [of "Function 7" demo_state]
    setRenderer_validates [of Null "demo_state\<lparr>renderer := Function 7\<rparr>"]
  by simp

section \<open>The visible rectangle\<close>

text \<open>
  Claim C1, as stated, fails: with both intrinsic dimensions zero, an 800 by 800
  container gets the 16:9 rectangle \<open>{0, 175, 800, 450}\<close>, not the full container.
\<close>

theorem getVideoRect_unknown_counterexample:
  "videoWidth unknown_host = Some (Fin 0) \<and> videoHeight unknown_host = Some (Fin 0)
   \<and> wrapper unknown_host = Some (DOMRect (Fin 800) (Fin 800))
   \<and> getVideoRect unknown_host = Rect (Fin 0) (Fin 175) (Fin 800) (Fin 450)
   \<and> getVideoRect unknown_host \<noteq> Rect (Fin 0) (Fin 0) (Fin 800) (Fin 800)"
  by (simp add: getVideoRect_def unknown_host_def demo_host_def)

lemma js_or_unknown: "unknown v \<Longrightarrow> js_or v d = d"
  by (cases v) (auto simp: unknown_def)

text \<open>
  Claim C1, amended. For every container, a zero or unknown intrinsic width is replaced
  by 1920 and a zero or unknown intrinsic height by 1080, and the rectangle is the one
  computed for the replaced dimensions; nothing fails. With both unknown and a positive
  finite container this is the 16:9 fit, which is the full container exactly when the
  container itself is 16:9.
\<close>

theorem getVideoRect_unknown_defaults:
  "(unknown (videoWidth p) \<longrightarrow>
      getVideoRect p = getVideoRect (p\<lparr>videoWidth := Some (Fin 1920)\<rparr>))
   \<and> (unknown (videoHeight p) \<longrightarrow>
      getVideoRect p = getVideoRect (p\<lparr>videoHeight := Some (Fin 1080)\<rparr>))
   \<and> (unknown (videoWidth p) \<and> unknown (videoHeight p)
        \<and> wrapper p = Some (DOMRect (Fin a) (Fin b)) \<and> 0 < a \<and> 0 < b \<longrightarrow>
      getVideoRect p =
        (if 16 / 9 < a / b
         then Rect (Fin ((a - b * (16 / 9)) / 2)) (Fin 0) (Fin (b * (16 / 9))) (Fin b)
         else Rect (Fin 0) (Fin ((b - a / (16 / 9)) / 2)) (Fin a) (Fin (a / (16 / 9))))
      \<and> (getVideoRect p = Rect (Fin 0) (Fin 0) (Fin a) (Fin b) \<longleftrightarrow> a / b = 16 / 9))"
proof (intro conjI impI)
  assume "unknown (videoWidth p)"
  then show "getVideoRect p = getVideoRect (p\<lparr>videoWidth := Some (Fin 1920)\<rparr>)"
    by (simp add: getVideoRect_def js_or_unknown Let_def split: option.split)
next
  assume "unknown (videoHeight p)"
  then show "getVideoRect p = getVideoRect (p\<lparr>videoHeight := Some (Fin 1080)\<rparr>)"
    by (simp add: getVideoRect_def js_or_unknown Let_def split: option.split)
next
  assume h: "unknown (videoWidth p) \<and> unknown (videoHeight p)
        \<and> wrapper p = Some (DOMRect (Fin a) (Fin b)) \<and> 0 < a \<and> 0 < b"
  then show r: "getVideoRect p =
        (if 16 / 9 < a / b
         then Rect (Fin ((a - b * (16 / 9)) / 2)) (Fin 0) (Fin (b * (16 / 9))) (Fin b)
         else Rect (Fin 0) (Fin ((b - a / (16 / 9)) / 2)) (Fin a) (Fin (a / (16 / 9))))"
    by (simp add: getVideoRect_def js_or_unknown Let_def)
  from h have "0 < a" "0 < b" by simp_all
  then show "getVideoRect p = Rect (Fin 0) (Fin 0) (Fin a) (Fin b) \<longleftrightarrow> a / b = 16 / 9"
    unfolding r by (auto simp: field_simps)
qed

theorem getVideoRect_unknown_defaults_witness:
  "unknown (videoWidth unknown_host) \<and> unknown (videoHeight unknown_host)
   \<and> wrapper unknown_host = Some (DOMRect (Fin 800) (Fin 800)) \<and> (0::real) < 800
   \<and> getVideoRect unknown_host = Rect (Fin 0) (Fin 175) (Fin 800) (Fin 450)"
proof -
  have u: "unknown (videoWidth unknown_host)" "unknown (videoHeight unknown_host)"
    by (simp_all add: unknown_def unknown_host_def demo_host_def)
  have w: "wrapper unknown_host = Some (DOMRect (Fin 800) (Fin 800))"
    by (simp add: unknown_host_def demo_host_def)
  from getVideoRect_unknown_defaults [of unknown_host 800 800] u w
  have "getVideoRect unknown_host =
      (if (16::real) / 9 < 800 / 800
       then Rect (Fin ((800 - 800 * (16 / 9)) / 2)) (Fin 0) (Fin (800 * (16 / 9))) (Fin 800)
       else Rect (Fin 0) (Fin ((800 - 800 / (16 / 9)) / 2)) (Fin 800) (Fin (800 / (16 / 9))))"
    by force
  then have "getVideoRect unknown_host = Rect (Fin 0) (Fin 175) (Fin 800) (Fin 450)"
    by simp
  with u w show ?thesis by simp
qed

text \<open>The two examples of the specification, on the demo player.\<close>

lemma getVideoRect_examples:
  "getVideoRect (demo_host\<lparr>wrapper := Some (DOMRect (Fin 800) (Fin 450))\<rparr>)
     = Rect (Fin 0) (Fin 0) (Fin 800) (Fin 450)"
  "getVideoRect demo_host = Rect (Fin 0) (Fin 175) (Fin 800) (Fin 450)"
  by (simp_all add: getVideoRect_def demo_host_def)



section \<open>The scheduler\<close>



lemma setup_demo: "setup_overlay demo_host initial = Inr demo_state"
proof -
  have "overlayEnabled demo_host" by (simp add: demo_host_def)
  with Overlay_demo show ?thesis by (simp add: Overlay_def)
qed


lemma performs_demo_renderer:
  "performs demo_host [Setup, SetRenderer (Function 7)] initial
     = Inr (demo_state\<lparr>renderer := Function 7\<rparr>)"
  by (simp add: setup_demo setRenderer_def)



subsection \<open>The invariant of the loop\<close>
























subsection \<open>Stopping\<close>




section \<open>Rendering and the frame data\<close>

text \<open>
  Claim C3 says that a tick with an empty frame data slot calls no renderer. The code
  tests the renderer only: on the overlay built for the demo player, with a renderer
  registered and no frame data set, the tick calls the renderer with null data and a
  null frame identifier.
\<close>

theorem render_calls_renderer_without_frame_data:
  "performs demo_host [Setup, SetRenderer (Function 7)] initial
     = Inr (demo_state\<lparr>renderer := Function 7\<rparr>)
   \<and> frameData (demo_state\<lparr>renderer := Function 7\<rparr>) = Null
   \<and> activeFrameId (demo_state\<lparr>renderer := Function 7\<rparr>) = Null
   \<and> trace (fire demo_host (AnimationFrame 1) (demo_state\<lparr>renderer := Function 7\<rparr>))
       = trace demo_state @
         [ClearRect (Fin 0) (Fin 0) (Fin 800) (Fin 800),
          RendererCall (Function 7) \<lparr>transform = (Fin 2, Fin 0, Fin 0, Fin 2, Fin 0, Fin 0)\<rparr>
            Null (Rect (Fin 0) (Fin 175) (Fin 800) (Fin 450)) Null]"
proof -
  have f: "frameData (demo_state\<lparr>renderer := Function 7\<rparr>) = Null"
    "activeFrameId (demo_state\<lparr>renderer := Function 7\<rparr>) = Null"
    by (simp_all add: demo_state_def)
  have t: "trace (fire demo_host (AnimationFrame 1) (demo_state\<lparr>renderer := Function 7\<rparr>))
       = trace demo_state @
         [ClearRect (Fin 0) (Fin 0) (Fin 800) (Fin 800),
          RendererCall (Function 7) \<lparr>transform = (Fin 2, Fin 0, Fin 0, Fin 2, Fin 0, Fin 0)\<rparr>
            Null (Rect (Fin 0) (Fin 175) (Fin 800) (Fin 450)) Null]"
    by (simp add: demo_state_def demo_host_def rafLoop_loop_def render_def emit_def
        getVideoRect_def requestAnimationFrame_def Let_def)
  show ?thesis
    by (rule conjI [OF performs_demo_renderer], rule conjI [OF f(1)],
        rule conjI [OF f(2)], rule t)
qed

lemma tick_raf:
  assumes "running s" and "canvas s \<noteq> None" and "ctx s = Some c"
    and "wrapper p = Some (DOMRect lw lh)" and "i \<in> set (rafPending s)"
  shows "fire p (AnimationFrame i) s =
     s\<lparr>trace := trace s @ ClearRect (Fin 0) (Fin 0) lw lh #
            (if is_function (renderer s)
             then [RendererCall (renderer s) c (frameData s) (getVideoRect p) (activeFrameId s)]
             else []),
       frameData := Null, activeFrameId := Null,
       rafPending := removeAll i (rafPending s) @ [nextRaf s],
       nextRaf := Suc (nextRaf s), rafId := Some (nextRaf s)\<rparr>"
proof -
  from assms(2) obtain cv where "canvas s = Some cv" by auto
  with assms show ?thesis
    by (simp add: rafLoop_loop_def requestAnimationFrame_def Let_def
        render_attached [where c = c and cv = cv and lw = lw and lh = lh])
qed

lemma tick_rvfc:
  assumes "running s" and "canvas s \<noteq> None" and "ctx s = Some c"
    and "wrapper p = Some (DOMRect lw lh)" and "i \<in> set (rvfcPending s)"
  shows "fire p (VideoFrame i md) s =
     s\<lparr>trace := trace s @ OverlayFrame md # ClearRect (Fin 0) (Fin 0) lw lh #
            (if is_function (renderer s)
             then [RendererCall (renderer s) c (frameData s) (getVideoRect p) (activeFrameId s)]
             else []),
       frameData := Null, activeFrameId := Null,
       rvfcPending := removeAll i (rvfcPending s) @ [nextRvfc s],
       nextRvfc := Suc (nextRvfc s), rvfcId := Some (nextRvfc s)\<rparr>"
proof -
  from assms(2) obtain cv where "canvas s = Some cv" by auto
  with assms show ?thesis
    by (simp add: rvfcLoop_callback_def requestVideoFrameCallback_def Let_def emit_def
        render_attached [where c = c and cv = cv and lw = lw and lh = lh])
qed



section \<open>Resizing twice, and resizing with frame data pending\<close>

lemma resize_attached_eq:
  assumes "canvas s = Some cv" and "ctx s = Some c" and "wrapper p = Some (DOMRect lw lh)"
  shows "resize p s =
     Inr (s\<lparr>canvas := Some (cv\<lparr>width := Math_round (jmul lw (js_or (devicePixelRatio p) (Fin 1))),
                              height := Math_round (jmul lh (js_or (devicePixelRatio p) (Fin 1)))\<rparr>),
            ctx := Some (c\<lparr>transform := (js_or (devicePixelRatio p) (Fin 1), Fin 0, Fin 0,
                                         js_or (devicePixelRatio p) (Fin 1), Fin 0, Fin 0)\<rparr>),
            trace := trace s @ ClearRect (Fin 0) (Fin 0) lw lh #
              (if is_function (renderer s)
               then [RendererCall (renderer s)
                       (c\<lparr>transform := (js_or (devicePixelRatio p) (Fin 1), Fin 0, Fin 0,
                                         js_or (devicePixelRatio p) (Fin 1), Fin 0, Fin 0)\<rparr>)
                       (frameData s) (getVideoRect p) (activeFrameId s)]
               else []),
            frameData := Null, activeFrameId := Null\<rparr>)"
  using assms by (simp add: resize_def Let_def render_attached)

text \<open>
  Claim C8. On an attached surface a second \<^verbatim>\<open>resize()\<close> under the same host succeeds
  like the first and leaves the surface state, and in fact the whole overlay, as the
  first left it; only the effects grow, by one more clear and renderer call. Both
  renderer calls are given the same visible rectangle, \<open>getVideoRect p\<close>, which depends
  on the host alone.
\<close>

theorem resize_idempotent:
  assumes "canvas s \<noteq> None" and "ctx s = Some c" and "wrapper p = Some (DOMRect lw lh)"
  shows "\<exists>s1 s2 c'. resize p s = Inr s1 \<and> resize p s1 = Inr s2
     \<and> surfaceState s2 = surfaceState s1 \<and> s2\<lparr>trace := trace s1\<rparr> = s1
     \<and> ctx s1 = Some c'
     \<and> trace s1 = trace s @ ClearRect (Fin 0) (Fin 0) lw lh #
         (if is_function (renderer s)
          then [RendererCall (renderer s) c' (frameData s) (getVideoRect p) (activeFrameId s)]
          else [])
     \<and> trace s2 = trace s1 @ ClearRect (Fin 0) (Fin 0) lw lh #
         (if is_function (renderer s)
          then [RendererCall (renderer s) c' Null (getVideoRect p) Null]
          else [])"
proof -
  from assms(1) obtain cv where cv: "canvas s = Some cv" by auto
  let ?d = "js_or (devicePixelRatio p) (Fin 1)"
  let ?cv = "cv\<lparr>width := Math_round (jmul lw ?d), height := Math_round (jmul lh ?d)\<rparr>"
  let ?c = "c\<lparr>transform := (?d, Fin 0, Fin 0, ?d, Fin 0, Fin 0)\<rparr>"
  let ?s1 = "s\<lparr>canvas := Some ?cv, ctx := Some ?c,
            trace := trace s @ ClearRect (Fin 0) (Fin 0) lw lh #
              (if is_function (renderer s)
               then [RendererCall (renderer s) ?c (frameData s) (getVideoRect p) (activeFrameId s)]
               else []),
            frameData := Null, activeFrameId := Null\<rparr>"
  have r1: "resize p s = Inr ?s1"
    by (rule resize_attached_eq [OF cv assms(2) assms(3)])
  have f1: "canvas ?s1 = Some ?cv" "ctx ?s1 = Some ?c"
    by simp_all
  let ?s2 = "?s1\<lparr>trace := trace ?s1 @ ClearRect (Fin 0) (Fin 0) lw lh #
              (if is_function (renderer s)
               then [RendererCall (renderer s) ?c Null (getVideoRect p) Null]
               else [])\<rparr>"
  have r2: "resize p ?s1 = Inr ?s2"
    unfolding resize_attached_eq [OF f1 assms(3)] by simp
  have "surfaceState ?s2 = surfaceState ?s1 \<and> ?s2\<lparr>trace := trace ?s1\<rparr> = ?s1
     \<and> ctx ?s1 = Some ?c
     \<and> trace ?s1 = trace s @ ClearRect (Fin 0) (Fin 0) lw lh #
         (if is_function (renderer s)
          then [RendererCall (renderer s) ?c (frameData s) (getVideoRect p) (activeFrameId s)]
          else [])
     \<and> trace ?s2 = trace ?s1 @ ClearRect (Fin 0) (Fin 0) lw lh #
         (if is_function (renderer s)
          then [RendererCall (renderer s) ?c Null (getVideoRect p) Null]
          else [])"
    by (simp add: surfaceState_def)
  with r1 r2 show ?thesis by blast
qed

theorem resize_idempotent_witness:
  "canvas demo_state \<noteq> None
   \<and> (\<exists>s1 s2. resize demo_host demo_state = Inr s1 \<and> resize demo_host s1 = Inr s2
        \<and> surfaceState s2 = surfaceState s1 \<and> s2\<lparr>trace := trace s1\<rparr> = s1)"
proof -
  have a: "canvas demo_state \<noteq> None"
    "ctx demo_state = Some \<lparr>transform = (Fin 2, Fin 0, Fin 0, Fin 2, Fin 0, Fin 0)\<rparr>"
    by (simp_all add: demo_state_def)
  from resize_idempotent [OF a demo_wrapper] a(1) show ?thesis
    by blast
qed

text \<open>
  Claim C10. On an attached surface, \<^verbatim>\<open>resize()\<close> after \<^verbatim>\<open>setFrameData\<close> hands the payload
  to the renderer of its own render, if one is registered, and returns with the slot
  empty; the tick that follows, on either loop, calls the renderer with null data.
\<close>

theorem resize_consumes_frame_data:
  assumes "canvas s \<noteq> None" and "ctx s = Some c" and "wrapper p = Some (DOMRect lw lh)"
  shows "\<exists>s' c'. resize p (setFrameData frameId detections s) = Inr s'
     \<and> frameData s' = Null \<and> activeFrameId s' = Null \<and> ctx s' = Some c'
     \<and> trace s' = trace s @ ClearRect (Fin 0) (Fin 0) lw lh #
         (if is_function (renderer s)
          then [RendererCall (renderer s) c' detections (getVideoRect p) frameId]
          else [])
     \<and> (running s \<longrightarrow>
          (\<forall>i. i \<in> set (rafPending s') \<longrightarrow>
             trace (fire p (AnimationFrame i) s') = trace s' @
               ClearRect (Fin 0) (Fin 0) lw lh #
               (if is_function (renderer s)
                then [RendererCall (renderer s) c' Null (getVideoRect p) Null]
                else []))
          \<and> (\<forall>i md. i \<in> set (rvfcPending s') \<longrightarrow>
             trace (fire p (VideoFrame i md) s') = trace s' @
               OverlayFrame md # ClearRect (Fin 0) (Fin 0) lw lh #
               (if is_function (renderer s)
                then [RendererCall (renderer s) c' Null (getVideoRect p) Null]
                else [])))"
proof -
  from assms(1) obtain cv where cv: "canvas s = Some cv" by auto
  let ?s0 = "setFrameData frameId detections s"
  let ?d = "js_or (devicePixelRatio p) (Fin 1)"
  let ?cv = "cv\<lparr>width := Math_round (jmul lw ?d), height := Math_round (jmul lh ?d)\<rparr>"
  let ?c = "c\<lparr>transform := (?d, Fin 0, Fin 0, ?d, Fin 0, Fin 0)\<rparr>"
  let ?s1 = "?s0\<lparr>canvas := Some ?cv, ctx := Some ?c,
            trace := trace s @ ClearRect (Fin 0) (Fin 0) lw lh #
              (if is_function (renderer s)
               then [RendererCall (renderer s) ?c detections (getVideoRect p) frameId]
               else []),
            frameData := Null, activeFrameId := Null\<rparr>"
  have f0: "canvas ?s0 = Some cv" "ctx ?s0 = Some c"
    using cv assms(2) by (simp_all add: setFrameData_def)
  have r1: "resize p ?s0 = Inr ?s1"
    unfolding resize_attached_eq [OF f0 assms(3)] by (simp add: setFrameData_def)
  have f1: "canvas ?s1 \<noteq> None" "ctx ?s1 = Some ?c" "running ?s1 = running s"
    "frameData ?s1 = Null" "activeFrameId ?s1 = Null" "renderer ?s1 = renderer s"
    by (simp_all add: setFrameData_def)
  have t1: "trace ?s1 = trace s @ ClearRect (Fin 0) (Fin 0) lw lh #
         (if is_function (renderer s)
          then [RendererCall (renderer s) ?c detections (getVideoRect p) frameId]
          else [])"
    by simp
  have a: "trace (fire p (AnimationFrame i) ?s1) = trace ?s1 @
               ClearRect (Fin 0) (Fin 0) lw lh #
               (if is_function (renderer s)
                then [RendererCall (renderer s) ?c Null (getVideoRect p) Null]
                else [])"
    if "running s" and "i \<in> set (rafPending ?s1)" for i
  proof -
    from that f1(3) have run: "running ?s1" by simp
    show ?thesis
      unfolding tick_raf [OF run f1(1) f1(2) assms(3) that(2)]
      by (simp add: setFrameData_def)
  qed
  have b: "trace (fire p (VideoFrame i md) ?s1) = trace ?s1 @
               OverlayFrame md # ClearRect (Fin 0) (Fin 0) lw lh #
               (if is_function (renderer s)
                then [RendererCall (renderer s) ?c Null (getVideoRect p) Null]
                else [])"
    if "running s" and "i \<in> set (rvfcPending ?s1)" for i md
  proof -
    from that f1(3) have run: "running ?s1" by simp
    show ?thesis
      unfolding tick_rvfc [OF run f1(1) f1(2) assms(3) that(2)]
      by (simp add: setFrameData_def)
  qed
  from r1 f1 t1 a b show ?thesis by blast
qed

theorem resize_consumes_frame_data_witness:
  "canvas demo_state \<noteq> None \<and> running demo_state \<and> 1 \<in> set (rafPending demo_state)
   \<and> (\<exists>s'. resize demo_host (setFrameData (Number (Fin 42)) (Object 5) demo_state) = Inr s'
        \<and> frameData s' = Null \<and> activeFrameId s' = Null)"
proof -
  have a: "canvas demo_state \<noteq> None"
    "ctx demo_state = Some \<lparr>transform = (Fin 2, Fin 0, Fin 0, Fin 2, Fin 0, Fin 0)\<rparr>"
    and b: "running demo_state" "1 \<in> set (rafPending demo_state)"
    by (simp_all add: demo_state_def)
  from resize_consumes_frame_data [OF a demo_wrapper, of "Number (Fin 42)" "Object 5"] a(1) b
  show ?thesis
    by blast
qed

end
